theory Spec2Isabelle
  imports Complex_Main "HOL-Library.Sublist"
begin

section \<open>Python values and exceptions\<close>

text \<open>
  The bootstrap script \<^verbatim>\<open>src/infra/recipes.py\<close> reads a JSON manifest and drives git
  through \<^verbatim>\<open>subprocess\<close>.  Strings are lists of characters with code points below 256.

  A float decoded by \<^verbatim>\<open>json.load\<close> is kept by its exact value: a finite double is a
  rational number, and the decoder also accepts \<^verbatim>\<open>NaN\<close>, \<^verbatim>\<open>Infinity\<close> and
  \<^verbatim>\<open>-Infinity\<close>.  Only comparison with an integer, truthiness and truncation by
  \<^verbatim>\<open>%d\<close> are used on them.
\<close>

datatype pyfloat = Finite rat | Infinity bool | NaN

text \<open>
  The value \<^verbatim>\<open>json.load\<close> returns.  A JSON object becomes a \<^verbatim>\<open>dict\<close> with string keys,
  kept here as an association list read with \<open>map_of\<close>.
\<close>

datatype json =
    JNull
  | JBool bool
  | JInt int
  | JFloat pyfloat
  | JStr string
  | JList "json list"
  | JObj "(string \<times> json) list"

text \<open>
  The exceptions that can leave the functions of the script.  \<open>MalformedRecipesCfg\<close>
  carries the full message its constructor builds; \<open>KeyError\<close> the missing key;
  \<open>CalledProcessError\<close> the exit status and the command; \<open>OSError\<close> its errno;
  \<open>SystemExit\<close> the status \<^verbatim>\<open>argparse\<close> exits with.
\<close>

datatype exn =
    MalformedRecipesCfg string
  | RequiredBinaryNotFound string
  | KeyError string
  | TypeError
  | AttributeError
  | ValueError
  | OverflowError
  | JSONDecodeError
  | UnicodeDecodeError
  | OSError int
  | CalledProcessError int "string list"
  | SystemExit int

text \<open>Truthiness of a decoded value (\<^verbatim>\<open>if not repo_name\<close>, \<^verbatim>\<open>py3_only or ...\<close>).\<close>

fun truthy :: "json \<Rightarrow> bool" where
  "truthy JNull = False"
| "truthy (JBool b) = b"
| "truthy (JInt n) = (n \<noteq> 0)"
| "truthy (JFloat (Finite r)) = (r \<noteq> 0)"
| "truthy (JFloat (Infinity _)) = True"
| "truthy (JFloat NaN) = True"
| "truthy (JStr s) = (s \<noteq> [])"
| "truthy (JList vs) = (vs \<noteq> [])"
| "truthy (JObj kvs) = (kvs \<noteq> [])"

text \<open>\<^verbatim>\<open>v == n\<close> for an integer literal \<open>n\<close>: numbers compare by value, \<^verbatim>\<open>True\<close> is 1.\<close>

fun py_eq_int :: "json \<Rightarrow> int \<Rightarrow> bool" where
  "py_eq_int (JInt m) n = (m = n)"
| "py_eq_int (JBool b) n = ((if b then 1 else 0) = n)"
| "py_eq_int (JFloat (Finite r)) n = (r = of_int n)"
| "py_eq_int _ n = False"

subsection \<open>String formatting\<close>

definition digit_char :: "nat \<Rightarrow> char" where
  "digit_char d = ''0123456789abcdef'' ! (d mod 16)"

fun str_nat :: "nat \<Rightarrow> string" where
  "str_nat n = (if n < 10 then [digit_char n] else str_nat (n div 10) @ [digit_char (n mod 10)])"

declare str_nat.simps [simp del]

definition str_int :: "int \<Rightarrow> string" where
  "str_int i = (if i < 0 then CHR ''-'' # str_nat (nat (- i)) else str_nat (nat i))"

text \<open>
  \<^verbatim>\<open>'%d' % v\<close>: integers and booleans print in decimal, a finite float is truncated
  towards zero, \<^verbatim>\<open>NaN\<close> raises \<^verbatim>\<open>ValueError\<close>, an infinity \<^verbatim>\<open>OverflowError\<close>, and
  every other value \<^verbatim>\<open>TypeError\<close>.
\<close>

fun percent_d :: "json \<Rightarrow> exn + string" where
  "percent_d (JInt n) = Inr (str_int n)"
| "percent_d (JBool b) = Inr (str_int (if b then 1 else 0))"
| "percent_d (JFloat (Finite r)) = Inr (str_int (if r < 0 then \<lceil>r\<rceil> else \<lfloor>r\<rfloor>))"
| "percent_d (JFloat NaN) = Inl ValueError"
| "percent_d (JFloat (Infinity _)) = Inl OverflowError"
| "percent_d _ = Inl TypeError"

text \<open>
  \<^verbatim>\<open>repr\<close> of a string (the \<^verbatim>\<open>%r\<close> of the error message, and \<^verbatim>\<open>str\<close> of a
  \<^verbatim>\<open>KeyError\<close>): the quote is \<^verbatim>\<open>'\<close> unless the string holds a \<^verbatim>\<open>'\<close> and no \<^verbatim>\<open>"\<close>; the
  quote and the backslash are escaped, tab, newline and carriage return are written
  \<^verbatim>\<open>\t \n \r\<close>, and the other unprintable characters as \<^verbatim>\<open>\xNN\<close>.
\<close>

definition squote :: char where "squote = CHR 0x27"
definition dquote :: char where "dquote = CHR 0x22"
definition backslash :: char where "backslash = CHR 0x5C"

definition printable :: "char \<Rightarrow> bool" where
  "printable c = (let n = (of_char c :: nat) in
     (32 \<le> n \<and> n < 127) \<or> (161 \<le> n \<and> n \<noteq> 173))"

definition repr_char :: "char \<Rightarrow> char \<Rightarrow> string" where
  "repr_char q c =
     (if c = q \<or> c = backslash then [backslash, c]
      else if c = CHR 0x09 then [backslash, CHR ''t'']
      else if c = CHR 0x0A then [backslash, CHR ''n'']
      else if c = CHR 0x0D then [backslash, CHR ''r'']
      else if printable c then [c]
      else [backslash, CHR ''x'', digit_char (of_char c div 16), digit_char (of_char c mod 16)])"

definition py_repr :: "string \<Rightarrow> string" where
  "py_repr s =
     (let q = (if squote \<in> set s \<and> dquote \<notin> set s then dquote else squote)
      in [q] @ concat (map (repr_char q) s) @ [q])"

section \<open>The world outside the script\<close>

text \<open>
  Everything the script asks of the operating system, of git and of the Python library is
  a field of the environment; \<open>'w\<close> is the state of the world (file system, checkout,
  search path), which the calls read and change.
\<close>

text \<open>The keyword arguments the script passes to \<^verbatim>\<open>subprocess\<close>.\<close>

record kwargs =
  cwd :: "string option"
  stdout_nul :: bool
  stderr_nul :: bool

text \<open>
  How a child process ended: it exited with a status and its standard output, or it could
  not be started (\<^verbatim>\<open>OSError\<close> with an errno).
\<close>

datatype proc = Exited int string | SpawnFailed int

text \<open>The namespace \<^verbatim>\<open>parse_known_args\<close> returns for the two options of the script.\<close>

record namespace =
  project_override :: "string list option"
  package :: "string option"

record 'w env =
  IS_WIN :: bool
  json_load :: "string \<Rightarrow> 'w \<Rightarrow> exn + json"
  which :: "string \<Rightarrow> 'w \<Rightarrow> string option"
  getenv :: "string \<Rightarrow> 'w \<Rightarrow> string option"
  subprocess :: "string list \<Rightarrow> kwargs \<Rightarrow> 'w \<Rightarrow> proc \<times> 'w"
  os_remove :: "string \<Rightarrow> 'w \<Rightarrow> int option \<times> 'w"
  execvp :: "string \<Rightarrow> string list \<Rightarrow> 'w \<Rightarrow> int option"
  path_sep :: char
  path_join :: "string \<Rightarrow> string list \<Rightarrow> string"
  path_dirname :: "string \<Rightarrow> string"
  path_abspath :: "string \<Rightarrow> 'w \<Rightarrow> string"
  urlparse_path :: "string \<Rightarrow> exn + string"
  parse_known_args :: "string list \<Rightarrow> 'w \<Rightarrow> exn + namespace"
  bytes_decode :: "string \<Rightarrow> exn + string"
  py_str :: "json \<Rightarrow> string"

text \<open>
  The fields of the environment:
  \<^item> \<open>json_load\<close> is \<^verbatim>\<open>open(path, 'r')\<close> followed by \<^verbatim>\<open>json.load\<close>;
  \<^item> \<open>which\<close> is \<^verbatim>\<open>shutil.which\<close>, \<open>getenv\<close> is \<^verbatim>\<open>os.getenv\<close>;
  \<^item> \<open>subprocess\<close> runs a command to completion;
  \<^item> \<open>os_remove\<close> is \<^verbatim>\<open>os.remove\<close>: \<open>None\<close> when the file was removed, else the errno
    of the \<^verbatim>\<open>OSError\<close>;
  \<^item> \<open>execvp\<close> is \<^verbatim>\<open>os.execvp\<close>: \<open>None\<close> when the process image was replaced, else
    the errno;
  \<^item> \<open>path_sep\<close>, \<open>path_join\<close>, \<open>path_dirname\<close>, \<open>path_abspath\<close> are \<^verbatim>\<open>os.path\<close>;
  \<^item> \<open>urlparse_path\<close> is \<^verbatim>\<open>urlparse.urlparse(url).path\<close>;
  \<^item> \<open>parse_known_args\<close> is the \<^verbatim>\<open>ArgumentParser\<close> of \<^verbatim>\<open>parse_args\<close> with its two
    options, \<^verbatim>\<open>-O/--project-override\<close> (appended in command-line order) and
    \<^verbatim>\<open>--package\<close> (made absolute);
  \<^item> \<open>bytes_decode\<close> is \<^verbatim>\<open>bytes.decode\<close>, \<open>py_str\<close> is \<^verbatim>\<open>str\<close> of a value that is
    not a string.
\<close>

text \<open>
  What the script does to the world, in order, each call with its outcome.  A log event
  keeps the format and its arguments, as the logging call receives them.
\<close>

datatype event =
    LogInfo string json
  | LogWarn string string int
  | SetLevelInfo
  | Spawn "string list" kwargs proc
  | Remove string "int option"
  | Print string
  | SignalIgnore string
  | Execvp string "string list" "int option"

record 'w state =
  world :: 'w
  trace :: "event list"

definition emit :: "event \<Rightarrow> 'w state \<Rightarrow> 'w state" where
  "emit e s = s\<lparr>trace := trace s @ [e]\<rparr>"

section \<open>The manifest parser\<close>

text \<open>The dependency entry; \<^verbatim>\<open>parse\<close> checks the type of \<open>branch\<close> only.\<close>

record EngineDep =
  url :: json
  revision :: json
  branch :: string

text \<open>
  \<^verbatim>\<open>MalformedRecipesCfg.__init__\<close>:
  \<^verbatim>\<open>'malformed recipes.cfg: %s: %r' % (msg, path)\<close>.
\<close>

definition full_message :: "string \<Rightarrow> string \<Rightarrow> string" where
  "full_message msg path = ''malformed recipes.cfg: '' @ msg @ '': '' @ py_repr path"

text \<open>\<^verbatim>\<open>d.get(k, default)\<close>, \<^verbatim>\<open>d[k]\<close> and \<^verbatim>\<open>d.setdefault(k, v)\<close> on a \<^verbatim>\<open>dict\<close>.\<close>

definition dict_get :: "(string \<times> json) list \<Rightarrow> string \<Rightarrow> json \<Rightarrow> json" where
  "dict_get d k dflt = (case map_of d k of None \<Rightarrow> dflt | Some v \<Rightarrow> v)"

definition dict_item :: "(string \<times> json) list \<Rightarrow> string \<Rightarrow> exn + json" where
  "dict_item d k = (case map_of d k of None \<Rightarrow> Inl (KeyError k) | Some v \<Rightarrow> Inr v)"

definition setdefault :: "(string \<times> json) list \<Rightarrow> string \<Rightarrow> json \<Rightarrow> (string \<times> json) list" where
  "setdefault d k v = (case map_of d k of None \<Rightarrow> d @ [(k, v)] | Some _ \<Rightarrow> d)"

definition dict_set :: "(string \<times> json) list \<Rightarrow> string \<Rightarrow> json \<Rightarrow> (string \<times> json) list" where
  "dict_set d k v = (case map_of d k of None \<Rightarrow> d @ [(k, v)]
                     | Some _ \<Rightarrow> map (\<lambda>(k', v'). if k' = k then (k', v) else (k', v')) d)"

text \<open>\<^verbatim>\<open>v[k]\<close> for a string key: only a \<^verbatim>\<open>dict\<close> can be subscripted by a string.\<close>

fun subscript :: "json \<Rightarrow> string \<Rightarrow> exn + json" where
  "subscript (JObj d) k = dict_item d k"
| "subscript _ k = Inl TypeError"

text \<open>
  \<^verbatim>\<open>k in v\<close> for a string \<open>k\<close>: a key of a \<^verbatim>\<open>dict\<close>, an element of a list, a substring
  of a string; the other values are not containers.
\<close>

fun py_in :: "string \<Rightarrow> json \<Rightarrow> exn + bool" where
  "py_in k (JObj d) = Inr (map_of d k \<noteq> None)"
| "py_in k (JList vs) = Inr (JStr k \<in> set vs)"
| "py_in k (JStr s) = Inr (sublist k s)"
| "py_in k _ = Inl TypeError"

text \<open>\<^verbatim>\<open>s.replace('/', os.path.sep)\<close>.\<close>

definition replace_slash :: "char \<Rightarrow> string \<Rightarrow> string" where
  "replace_slash sep s = map (\<lambda>c. if c = CHR ''/'' then sep else c) s"


text \<open>
  \<^verbatim>\<open>EngineDep(**engine)\<close>: a key that is not a field of the tuple is a \<^verbatim>\<open>TypeError\<close>, and
  so is a missing field.
\<close>

definition EngineDep_of :: "(string \<times> json) list \<Rightarrow> exn + EngineDep" where
  "EngineDep_of d =
     (if \<not> list_all (\<lambda>(k, v). k \<in> set [''url'', ''revision'', ''branch'']) d then Inl TypeError
      else case (map_of d ''url'', map_of d ''revision'', map_of d ''branch'') of
             (Some u, Some r, Some (JStr b)) \<Rightarrow> Inr \<lparr>url = u, revision = r, branch = b\<rparr>
           | _ \<Rightarrow> Inl TypeError)"

text \<open>The message of lines 96-98.\<close>

definition url_missing :: string where
  "url_missing = ''Required field '' @ [dquote] @ ''url'' @ [dquote] @ '' in dependency ''
     @ [dquote] @ ''recipe_engine'' @ [dquote] @ '' not found''"

text \<open>Lines 93-110 of \<^verbatim>\<open>parse\<close>: the dependency entry of a repository that is not the engine.\<close>

definition parse_dep ::
  "'w env \<Rightarrow> string \<Rightarrow> string \<Rightarrow> (string \<times> json) list \<Rightarrow> json
    \<Rightarrow> exn + (EngineDep option \<times> json \<times> json)" where
  "parse_dep env repo_root recipes_cfg_path pb py3_only =
     (case dict_item pb ''deps'' of Inl e \<Rightarrow> Inl e
      | Inr deps \<Rightarrow>
     (case subscript deps ''recipe_engine'' of Inl e \<Rightarrow> Inl e
      | Inr engine \<Rightarrow>
     (case py_in ''url'' engine of Inl e \<Rightarrow> Inl e
      | Inr False \<Rightarrow>
          Inl (MalformedRecipesCfg (full_message url_missing recipes_cfg_path))
      | Inr True \<Rightarrow>
     (case engine of
        JObj engine0 \<Rightarrow>
          (let engine1 = setdefault engine0 ''revision'' (JStr []);
               engine2 = setdefault engine1 ''branch'' (JStr ''refs/heads/main'');
               recipes_path = dict_get pb ''recipes_path'' (JStr [])
           in case dict_get engine2 ''branch'' JNull of
                JStr b \<Rightarrow>
                  (let engine3 = (if \<not> prefix ''refs/'' b
                                  then dict_set engine2 ''branch'' (JStr (''refs/heads/'' @ b))
                                  else engine2)
                   in case recipes_path of
                        JStr rp \<Rightarrow>
                          (let recipes_path' =
                                 path_join env repo_root [replace_slash (path_sep env) rp]
                           in case EngineDep_of engine3 of Inl e \<Rightarrow> Inl e
                              | Inr dep \<Rightarrow> Inr (Some dep, JStr recipes_path', py3_only))
                      | _ \<Rightarrow> Inl AttributeError)
              | _ \<Rightarrow> Inl AttributeError)
      | _ \<Rightarrow> Inl AttributeError))))"

text \<open>Lines 81-110 of \<^verbatim>\<open>parse\<close>: the body of the \<^verbatim>\<open>try\<close>.\<close>

definition parse_body ::
  "'w env \<Rightarrow> string \<Rightarrow> string \<Rightarrow> (string \<times> json) list \<Rightarrow> json
    \<Rightarrow> exn + (EngineDep option \<times> json \<times> json)" where
  "parse_body env repo_root recipes_cfg_path pb py3_only =
     (case dict_item pb ''api_version'' of Inl e \<Rightarrow> Inl e
      | Inr v \<Rightarrow>
        if \<not> py_eq_int v 2 then
          (case percent_d v of Inl e \<Rightarrow> Inl e
           | Inr d \<Rightarrow> Inl (MalformedRecipesCfg
                             (full_message (''unknown version '' @ d) recipes_cfg_path)))
        else
          (case (let repo_name = dict_get pb ''repo_name'' JNull
                 in if \<not> truthy repo_name then dict_item pb ''project_id'' else Inr repo_name) of
             Inl e \<Rightarrow> Inl e
           | Inr repo_name \<Rightarrow>
               if repo_name = JStr ''recipe_engine''
               then Inr (None, dict_get pb ''recipes_path'' (JStr []), py3_only)
               else parse_dep env repo_root recipes_cfg_path pb py3_only))"

text \<open>
  \<^verbatim>\<open>parse\<close>.  The file is read and decoded before the \<^verbatim>\<open>try\<close>; \<^verbatim>\<open>pb.get\<close> needs a
  \<^verbatim>\<open>dict\<close>; the \<^verbatim>\<open>except\<close> clause turns a \<^verbatim>\<open>KeyError\<close>, and nothing else, into
  \<^verbatim>\<open>MalformedRecipesCfg(str(ex), recipes_cfg_path)\<close>, where \<^verbatim>\<open>str\<close> of a
  \<^verbatim>\<open>KeyError\<close> is the \<^verbatim>\<open>repr\<close> of the key.
\<close>

definition parse ::
  "'w env \<Rightarrow> string \<Rightarrow> string \<Rightarrow> 'w \<Rightarrow> exn + (EngineDep option \<times> json \<times> json)" where
  "parse env repo_root recipes_cfg_path w =
     (case json_load env recipes_cfg_path w of Inl e \<Rightarrow> Inl e
      | Inr (JObj pb) \<Rightarrow>
          (let py3_only = dict_get pb ''py3_only'' (JBool False)
           in case parse_body env repo_root recipes_cfg_path pb py3_only of
                Inl (KeyError k) \<Rightarrow>
                  Inl (MalformedRecipesCfg (full_message (py_repr k) recipes_cfg_path))
              | r \<Rightarrow> r)
      | Inr _ \<Rightarrow> Inl AttributeError)"

section \<open>Running git\<close>

definition BAT :: "'w env \<Rightarrow> string" where
  "BAT env = (if IS_WIN env then ''.bat'' else [])"

definition GIT :: "'w env \<Rightarrow> string" where
  "GIT env = ''git'' @ BAT env"

definition CIPD :: "'w env \<Rightarrow> string" where
  "CIPD env = ''cipd'' @ BAT env"

definition REQUIRED_BINARIES :: "'w env \<Rightarrow> string set" where
  "REQUIRED_BINARIES env = {GIT env, CIPD env}"

text \<open>\<^verbatim>\<open>_is_on_path\<close>.\<close>

definition is_on_path :: "'w env \<Rightarrow> string \<Rightarrow> 'w \<Rightarrow> bool" where
  "is_on_path env basename w = (which env basename w \<noteq> None)"

text \<open>Running a command: the world moves on and the call is recorded with its outcome.\<close>

definition spawn :: "'w env \<Rightarrow> string list \<Rightarrow> kwargs \<Rightarrow> 'w state \<Rightarrow> proc \<times> 'w state" where
  "spawn env argv kw s =
     (case subprocess env argv kw (world s) of
        (r, w') \<Rightarrow> (r, \<lparr>world = w', trace = trace s @ [Spawn argv kw r]\<rparr>))"

text \<open>\<^verbatim>\<open>_subprocess_call\<close>: the exit status of the command.\<close>

definition subprocess_call ::
  "'w env \<Rightarrow> string list \<Rightarrow> 'w state \<Rightarrow> (exn + int) \<times> 'w state" where
  "subprocess_call env argv s =
     (case spawn env argv \<lparr>cwd = None, stdout_nul = False, stderr_nul = False\<rparr>
             (emit (LogInfo ''Running %r'' (JList (map JStr argv))) s) of
        (Exited rc out, s') \<Rightarrow> (Inr rc, s')
      | (SpawnFailed errno, s') \<Rightarrow> (Inl (OSError errno), s'))"

text \<open>
  What \<^verbatim>\<open>subprocess.check_call\<close> and \<^verbatim>\<open>subprocess.check_output\<close> make of the outcome
  of a command: \<^verbatim>\<open>CalledProcessError\<close> when the exit status is not 0, \<^verbatim>\<open>OSError\<close> when
  the command could not be started, and the standard output otherwise.
\<close>

definition checked :: "string list \<Rightarrow> proc \<Rightarrow> exn + string" where
  "checked argv r =
     (case r of
        Exited rc out \<Rightarrow> if rc \<noteq> 0 then Inl (CalledProcessError rc argv) else Inr out
      | SpawnFailed errno \<Rightarrow> Inl (OSError errno))"

text \<open>\<^verbatim>\<open>_git_check_call\<close>: the command is logged, run and checked.\<close>

definition git_check_call ::
  "'w env \<Rightarrow> string list \<Rightarrow> kwargs \<Rightarrow> 'w state \<Rightarrow> (exn + unit) \<times> 'w state" where
  "git_check_call env argv kw s =
     (let argv' = [GIT env] @ argv
      in case spawn env argv' kw (emit (LogInfo ''Running %r'' (JList (map JStr argv'))) s) of
           (r, s') \<Rightarrow> (map_sum id (\<lambda>out. ()) (checked argv' r), s'))"

text \<open>
  \<^verbatim>\<open>_git_check_call\<close> on a command that ends with the revision of the descriptor.
  \<^verbatim>\<open>parse\<close> does not check that the revision is a string, and \<^verbatim>\<open>subprocess\<close> raises
  \<^verbatim>\<open>TypeError\<close> on an argument that is not one, after the command has been logged and
  before anything is run.
\<close>

definition git_check_call_rev ::
  "'w env \<Rightarrow> string list \<Rightarrow> json \<Rightarrow> kwargs \<Rightarrow> 'w state \<Rightarrow> (exn + unit) \<times> 'w state" where
  "git_check_call_rev env argv revn kw s =
     (case revn of
        JStr r \<Rightarrow> git_check_call env (argv @ [r]) kw s
      | _ \<Rightarrow> (Inl TypeError,
               emit (LogInfo ''Running %r'' (JList (map JStr ([GIT env] @ argv) @ [revn]))) s))"

text \<open>\<^verbatim>\<open>_git_output\<close>: the standard output of the command.\<close>

definition git_output ::
  "'w env \<Rightarrow> string list \<Rightarrow> kwargs \<Rightarrow> 'w state \<Rightarrow> (exn + string) \<times> 'w state" where
  "git_output env argv kw s =
     (let argv' = [GIT env] @ argv
      in case spawn env argv' kw (emit (LogInfo ''Running %r'' (JList (map JStr argv'))) s) of
           (r, s') \<Rightarrow> (checked argv' r, s'))"

section \<open>Command-line arguments\<close>

definition PREFIX :: string where
  "PREFIX = ''recipe_engine=''"

text \<open>The loop of \<^verbatim>\<open>parse_args\<close> over \<^verbatim>\<open>args.project_override or ()\<close>.\<close>

fun first_override :: "string list \<Rightarrow> string option" where
  "first_override [] = None"
| "first_override (override # rest) =
     (if prefix PREFIX override then Some (drop (length PREFIX) override)
      else first_override rest)"

definition parse_args ::
  "'w env \<Rightarrow> string list \<Rightarrow> 'w \<Rightarrow> exn + (string option \<times> string option)" where
  "parse_args env argv w =
     (case parse_known_args env argv w of
        Inl e \<Rightarrow> Inl e
      | Inr args \<Rightarrow>
          Inr (first_override (case project_override args of None \<Rightarrow> [] | Some ovs \<Rightarrow> ovs),
               package args))"

section \<open>Checking out the engine\<close>

text \<open>\<^verbatim>\<open>'%s' % v\<close>.\<close>

definition percent_s :: "'w env \<Rightarrow> json \<Rightarrow> string" where
  "percent_s env v = (case v of JStr s \<Rightarrow> s | _ \<Rightarrow> py_str env v)"

definition ENOENT :: int where
  "ENOENT = 2"

text \<open>
  Lines 207-213: the index lock is removed; an \<^verbatim>\<open>OSError\<close> other than \<^verbatim>\<open>ENOENT\<close> is
  logged as a warning.
\<close>

definition remove_index_lock :: "'w env \<Rightarrow> string \<Rightarrow> 'w state \<Rightarrow> 'w state" where
  "remove_index_lock env engine_path s =
     (let index_lock = path_join env engine_path [''.git'', ''index.lock'']
      in case os_remove env index_lock (world s) of
           (r, w') \<Rightarrow>
             (let s' = \<lparr>world = w', trace = trace s @ [Remove index_lock r]\<rparr>
              in case r of
                   None \<Rightarrow> s'
                 | Some errno \<Rightarrow>
                     if errno \<noteq> ENOENT
                     then emit (LogWarn ''failed to remove %r, reset will fail: %s''
                                   index_lock errno) s'
                     else s'))"

text \<open>
  Lines 189-202, under \<^verbatim>\<open>Ensure that we have the recipe engine cloned\<close>: the
  repository is initialised, and the branch is fetched when \<^verbatim>\<open>rev-parse\<close> does not
  find the revision.  Only \<^verbatim>\<open>CalledProcessError\<close> is caught.
\<close>

definition ensure_cloned ::
  "'w env \<Rightarrow> string \<Rightarrow> EngineDep \<Rightarrow> string \<Rightarrow> 'w state \<Rightarrow> (exn + unit) \<times> 'w state" where
  "ensure_cloned env u dep engine_path s =
     (case git_check_call env [''init'', engine_path]
             \<lparr>cwd = None, stdout_nul = True, stderr_nul = False\<rparr> s of
        (Inl e, s1) \<Rightarrow> (Inl e, s1)
      | (Inr _, s1) \<Rightarrow>
          (case git_check_call env
                  [''rev-parse'', ''--verify'', percent_s env (revision dep) @ ''^{commit}'']
                  \<lparr>cwd = Some engine_path, stdout_nul = True, stderr_nul = True\<rparr> s1 of
             (Inl (CalledProcessError rc cmd), s2) \<Rightarrow>
               git_check_call env [''fetch'', ''--quiet'', u, branch dep]
                 \<lparr>cwd = Some engine_path, stdout_nul = True, stderr_nul = False\<rparr> s2
           | r \<Rightarrow> r))"

text \<open>
  Lines 204-214: the working tree is compared with the revision, and reset to it, after
  the index lock is removed, when \<^verbatim>\<open>diff\<close> exits with a status other than 0.
\<close>

definition reset_to_revision ::
  "'w env \<Rightarrow> json \<Rightarrow> string \<Rightarrow> 'w state \<Rightarrow> (exn + unit) \<times> 'w state" where
  "reset_to_revision env revn engine_path s =
     (let here = \<lparr>cwd = Some engine_path, stdout_nul = False, stderr_nul = False\<rparr>
      in case git_check_call_rev env [''diff'', ''--quiet''] revn here s of
           (Inl (CalledProcessError rc cmd), s4) \<Rightarrow>
             git_check_call_rev env [''reset'', ''-q'', ''--hard''] revn here
               (remove_index_lock env engine_path s4)
         | r \<Rightarrow> r)"

text \<open>
  Lines 183-218, the body of the second \<^verbatim>\<open>if not engine_path\<close>: the managed checkout.
  \<^verbatim>\<open>git clean -qxf\<close> is the last command, whichever way the comparison went.
\<close>

definition managed_checkout ::
  "'w env \<Rightarrow> string \<Rightarrow> EngineDep \<Rightarrow> string \<Rightarrow> 'w state \<Rightarrow> (exn + string) \<times> 'w state" where
  "managed_checkout env u dep recipes_path s =
     (let engine_path = path_join env recipes_path [''.recipe_deps'', ''recipe_engine'']
      in
      case ensure_cloned env u dep engine_path s of
        (Inl e, s3) \<Rightarrow> (Inl e, s3)
      | (Inr _, s3) \<Rightarrow>
      (case reset_to_revision env (revision dep) engine_path s3 of
        (Inl e, s5) \<Rightarrow> (Inl e, s5)
      | (Inr _, s5) \<Rightarrow>
      (case git_check_call env [''clean'', ''-qxf'']
              \<lparr>cwd = Some engine_path, stdout_nul = False, stderr_nul = False\<rparr> s5 of
        (Inl e, s6) \<Rightarrow> (Inl e, s6)
      | (Inr _, s6) \<Rightarrow> (Inr engine_path, s6))))"

text \<open>\<^verbatim>\<open>not engine_path\<close> for \<^verbatim>\<open>engine_path: str | None\<close>.\<close>

definition no_path :: "string option \<Rightarrow> bool" where
  "no_path p = (p = None \<or> p = Some [])"

text \<open>
  \<^verbatim>\<open>checkout_engine\<close>.  The \<^verbatim>\<open>and\<close> of line 179 looks at the URL only when there is no
  engine path; a URL that is not a string has no \<^verbatim>\<open>startswith\<close>.
\<close>

definition checkout_engine ::
  "'w env \<Rightarrow> string option \<Rightarrow> string \<Rightarrow> string \<Rightarrow> 'w state
    \<Rightarrow> (exn + (string \<times> json)) \<times> 'w state" where
  "checkout_engine env engine_path repo_root recipes_cfg_path s =
     (case parse env repo_root recipes_cfg_path (world s) of
        Inl e \<Rightarrow> (Inl e, s)
      | Inr (None, recipes_path, py3_only) \<Rightarrow>
          (case recipes_path of
             JStr rp \<Rightarrow> (Inr (path_join env repo_root [rp], py3_only), s)
           | _ \<Rightarrow> (Inl TypeError, s))
      | Inr (Some dep, recipes_path, py3_only) \<Rightarrow>
          if \<not> no_path engine_path then (Inr (the engine_path, py3_only), s)
          else
            (case url dep of
               JStr u \<Rightarrow>
                 (case (if prefix ''file://'' u then map_sum id Some (urlparse_path env u)
                        else Inr engine_path) of
                    Inl e \<Rightarrow> (Inl e, s)
                  | Inr engine_path' \<Rightarrow>
                      if \<not> no_path engine_path' then (Inr (the engine_path', py3_only), s)
                      else
                        (case recipes_path of
                           JStr rp \<Rightarrow>
                             (case managed_checkout env u dep rp s of
                                (Inl e, s') \<Rightarrow> (Inl e, s')
                              | (Inr p, s') \<Rightarrow> (Inr (p, py3_only), s'))
                         | _ \<Rightarrow> (Inl TypeError, s)))
             | _ \<Rightarrow> (Inl AttributeError, s)))"

section \<open>The entry point\<close>

text \<open>
  The loop of lines 229-232 over the set \<^verbatim>\<open>REQUIRED_BINARIES\<close>: the first binary, in the
  order the set is iterated in, that is not on the search path.
\<close>

fun first_missing :: "'w env \<Rightarrow> string list \<Rightarrow> 'w \<Rightarrow> string option" where
  "first_missing env [] w = None"
| "first_missing env (required_binary # rest) w =
     (if \<not> is_on_path env required_binary w then Some required_binary
      else first_missing env rest w)"

definition not_found :: "string \<Rightarrow> string" where
  "not_found binary = ''Required binary is not found on PATH: '' @ binary"

text \<open>How \<^verbatim>\<open>main\<close> ends when no exception leaves it.\<close>

datatype ending = Returned int | Replaced

text \<open>
  Lines 240-251: the repository root and the manifest path, from \<^verbatim>\<open>--package\<close> or from
  git, and the arguments to forward.
\<close>

definition locate ::
  "'w env \<Rightarrow> string \<Rightarrow> string option \<Rightarrow> string list \<Rightarrow> 'w state
    \<Rightarrow> (exn + (string \<times> string \<times> string list)) \<times> 'w state" where
  "locate env file recipes_cfg_path args s =
     (if \<not> no_path recipes_cfg_path then
        (Inr (path_dirname env (path_dirname env (path_dirname env (the recipes_cfg_path))),
              the recipes_cfg_path, args), s)
      else
        (case git_output env [''rev-parse'', ''--show-toplevel'']
                \<lparr>cwd = Some (path_abspath env (path_dirname env file) (world s)),
                 stdout_nul = False, stderr_nul = False\<rparr> s of
           (Inl e, s') \<Rightarrow> (Inl e, s')
         | (Inr out, s') \<Rightarrow>
             (case bytes_decode env out of
                Inl e \<Rightarrow> (Inl e, s')
              | Inr repo_root \<Rightarrow>
                  (let recipes_cfg_path' =
                         path_join env repo_root [''infra'', ''config'', ''recipes.cfg'']
                   in (Inr (repo_root, recipes_cfg_path',
                            [''--package'', recipes_cfg_path'] @ args), s')))))"

text \<open>Lines 267-277: the downstream tool is spawned on Windows and exec'ed elsewhere.\<close>

definition handoff ::
  "'w env \<Rightarrow> string \<Rightarrow> string list \<Rightarrow> 'w state \<Rightarrow> (exn + ending) \<times> 'w state" where
  "handoff env vpython argv s =
     (if IS_WIN env then
        (case subprocess_call env argv
                (emit (SignalIgnore ''SIGTERM'')
                  (emit (SignalIgnore ''SIGINT'')
                    (emit (SignalIgnore ''SIGBREAK'') s))) of
           (Inl e, s') \<Rightarrow> (Inl e, s')
         | (Inr rc, s') \<Rightarrow> (Inr (Returned rc), s'))
      else
        (case execvp env vpython argv (world s) of
           None \<Rightarrow> (Inr Replaced, emit (Execvp vpython argv None) s)
         | Some errno \<Rightarrow> (Inl (OSError errno), emit (Execvp vpython argv (Some errno)) s)))"

text \<open>Lines 255-256: the runtime variant.\<close>

definition vpython_name :: "'w env \<Rightarrow> json \<Rightarrow> 'w \<Rightarrow> string" where
  "vpython_name env py3_only w =
     (let using_py3 = (truthy py3_only \<or> getenv env ''RECIPES_USE_PY3'' w = Some ''true'')
      in ''vpython'' @ (if using_py3 then ''3'' else []) @ BAT env)"

text \<open>
  Lines 252-277: the engine is checked out, the runtime variant is looked up on the search
  path, and the downstream tool is started with the arguments to forward.
\<close>

definition run_engine ::
  "'w env \<Rightarrow> string option \<Rightarrow> string \<Rightarrow> string \<Rightarrow> string list \<Rightarrow> 'w state
    \<Rightarrow> (exn + ending) \<times> 'w state" where
  "run_engine env engine_override repo_root recipes_cfg_path args s =
     (case checkout_engine env engine_override repo_root recipes_cfg_path s of
        (Inl e, s2) \<Rightarrow> (Inl e, s2)
      | (Inr (engine_path, py3_only), s2) \<Rightarrow>
          (let vpython = vpython_name env py3_only (world s2)
           in if \<not> is_on_path env vpython (world s2)
              then (Inl (RequiredBinaryNotFound (not_found vpython)), s2)
              else handoff env vpython
                     ([vpython, ''-u'',
                       path_join env engine_path [''recipe_engine'', ''main.py'']]
                      @ args) s2))"

text \<open>
  Lines 229-277, the body of the \<^verbatim>\<open>try\<close> of \<^verbatim>\<open>main\<close>.  \<open>order\<close> is the order in which the
  set \<^verbatim>\<open>REQUIRED_BINARIES\<close> is iterated, \<open>argv\<close> is \<^verbatim>\<open>sys.argv\<close> and \<open>file\<close> is
  \<^verbatim>\<open>__file__\<close>.
\<close>

definition main_body ::
  "'w env \<Rightarrow> string list \<Rightarrow> string list \<Rightarrow> string \<Rightarrow> 'w state \<Rightarrow> (exn + ending) \<times> 'w state" where
  "main_body env order argv file s =
     (case first_missing env order (world s) of
        Some required_binary \<Rightarrow> (Inl (RequiredBinaryNotFound (not_found required_binary)), s)
      | None \<Rightarrow>
          (let s0 = (if ''--verbose'' \<in> set argv then emit SetLevelInfo s else s);
               args = drop 1 argv
           in case parse_args env args (world s0) of
                Inl e \<Rightarrow> (Inl e, s0)
              | Inr (engine_override, recipes_cfg_path) \<Rightarrow>
             (case locate env file recipes_cfg_path args s0 of
                (Inl e, s1) \<Rightarrow> (Inl e, s1)
              | (Inr (repo_root, recipes_cfg_path', args'), s1) \<Rightarrow>
                  run_engine env engine_override repo_root recipes_cfg_path' args' s1)))"

text \<open>
  Lines 278-280, the \<^verbatim>\<open>except\<close> clause of \<^verbatim>\<open>main\<close>: \<^verbatim>\<open>RequiredBinaryNotFound\<close> is printed
  and becomes the return value 1; every other outcome is left as it is.
\<close>

definition report_missing :: "(exn + ending) \<times> 'w state \<Rightarrow> (exn + ending) \<times> 'w state" where
  "report_missing r =
     (case r of
        (Inl (RequiredBinaryNotFound msg), s') \<Rightarrow> (Inr (Returned 1), emit (Print msg) s')
      | _ \<Rightarrow> r)"

text \<open>\<^verbatim>\<open>main\<close>.\<close>

definition main ::
  "'w env \<Rightarrow> string list \<Rightarrow> string list \<Rightarrow> string \<Rightarrow> 'w state \<Rightarrow> (exn + ending) \<times> 'w state" where
  "main env order argv file s = report_missing (main_body env order argv file s)"

section \<open>A small world to run the script in\<close>

text \<open>
  A POSIX machine with one manifest and one checkout.  A commit is known by its name and
  names the tree it records; the working tree is the tree it currently holds.
\<close>

record toy =
  manifest :: "exn + json"
  on_path :: "string list"
  HEAD :: string
  commits :: "(string \<times> string) list"
  remote :: "(string \<times> string) list"
  worktree :: string
  untracked :: bool
  remove_result :: "int option"
  toplevel :: string

text \<open>\<^verbatim>\<open>posixpath.join\<close> and \<^verbatim>\<open>posixpath.dirname\<close>.\<close>

fun posix_join :: "string \<Rightarrow> string list \<Rightarrow> string" where
  "posix_join a [] = a"
| "posix_join a (b # p) =
     posix_join (if prefix ''/'' b then b
                 else if a = [] \<or> last a = CHR ''/'' then a @ b
                 else a @ ''/'' @ b) p"

definition posix_dirname :: "string \<Rightarrow> string" where
  "posix_dirname p =
     (let head = rev (dropWhile (\<lambda>c. c \<noteq> CHR ''/'') (rev p))
      in if head \<noteq> [] \<and> \<not> list_all (\<lambda>c. c = CHR ''/'') head
         then rev (dropWhile (\<lambda>c. c = CHR ''/'') (rev head))
         else head)"

text \<open>What the git of this world does with the commands the script issues.\<close>

definition toy_git :: "string list \<Rightarrow> kwargs \<Rightarrow> toy \<Rightarrow> proc \<times> toy" where
  "toy_git argv kw w =
     (let cmd = drop 1 argv in
      if take 1 cmd = [''init''] then (Exited 0 [], w)
      else if cmd = [''rev-parse'', ''--show-toplevel'']
        then (Exited 0 (toplevel w @ [CHR 0x0A]), w)
      else if take 2 cmd = [''rev-parse'', ''--verify''] then
        (if drop 2 cmd \<in> set (map (\<lambda>(c, t). [c @ ''^{commit}'']) (commits w))
         then (Exited 0 [], w) else (Exited 128 [], w))
      else if take 2 cmd = [''fetch'', ''--quiet''] then
        (Exited 0 [], w\<lparr>commits := commits w @ remote w\<rparr>)
      else if take 2 cmd = [''diff'', ''--quiet''] then
        (case map_of (commits w) (concat (drop 2 cmd)) of
           Some t \<Rightarrow> if t = worktree w then (Exited 0 [], w) else (Exited 1 [], w)
         | None \<Rightarrow> (Exited 128 [], w))
      else if take 3 cmd = [''reset'', ''-q'', ''--hard''] then
        (case map_of (commits w) (concat (drop 3 cmd)) of
           Some t \<Rightarrow> (Exited 0 [], w\<lparr>HEAD := concat (drop 3 cmd), worktree := t\<rparr>)
         | None \<Rightarrow> (Exited 128 [], w))
      else if cmd = [''clean'', ''-qxf''] then (Exited 0 [], w\<lparr>untracked := False\<rparr>)
      else (Exited 0 [], w))"

text \<open>A reader of the two options, for arguments that spell them out in full.\<close>

fun toy_args :: "string list \<Rightarrow> namespace \<Rightarrow> namespace" where
  "toy_args (a # v # rest) ns =
     (if a = ''-O'' \<or> a = ''--project-override''
      then toy_args rest (ns\<lparr>project_override :=
             Some ((case project_override ns of None \<Rightarrow> [] | Some ovs \<Rightarrow> ovs) @ [v])\<rparr>)
      else if a = ''--package''
      then toy_args rest (ns\<lparr>package := Some (posix_join ''/work'' [v])\<rparr>)
      else toy_args (v # rest) ns)"
| "toy_args _ ns = ns"

definition toy_env :: "toy env" where
  "toy_env =
     \<lparr>IS_WIN = False,
      json_load = (\<lambda>path w. manifest w),
      which = (\<lambda>b w. if b \<in> set (on_path w) then Some (''/usr/bin/'' @ b) else None),
      getenv = (\<lambda>name w. None),
      subprocess = toy_git,
      os_remove = (\<lambda>path w. (remove_result w, w)),
      execvp = (\<lambda>file argv w. None),
      path_sep = CHR ''/'',
      path_join = posix_join,
      path_dirname = posix_dirname,
      path_abspath = (\<lambda>p w. posix_join ''/work'' [p]),
      urlparse_path = (\<lambda>u. Inr (dropWhile (\<lambda>c. c \<noteq> CHR ''/'') (drop 7 u))),
      parse_known_args =
        (\<lambda>argv w. Inr (toy_args argv \<lparr>project_override = None, package = None\<rparr>)),
      bytes_decode = Inr,
      py_str = (\<lambda>v. ''?'')\<rparr>"

subsection \<open>Manifests and checkouts of this world\<close>

text \<open>
  A repository that depends on the engine, pinned at commit \<open>A\<close> of branch \<open>main\<close>, and
  the engine repository itself.
\<close>

definition manifest_dep :: json where
  "manifest_dep =
     JObj [(''api_version'', JInt 2), (''repo_name'', JStr ''build''),
           (''deps'', JObj [(''recipe_engine'',
              JObj [(''url'', JStr ''https://host/engine.git''),
                    (''revision'', JStr ''A''), (''branch'', JStr ''main'')])])]"

definition manifest_self :: json where
  "manifest_self =
     JObj [(''api_version'', JInt 2), (''project_id'', JStr ''recipe_engine''),
           (''recipes_path'', JStr ''recipes''), (''py3_only'', JBool True),
           (''deps'', JObj [])]"

text \<open>
  A checkout whose \<open>HEAD\<close> is commit \<open>B\<close>, an empty commit on top of \<open>A\<close>: both record
  the tree \<open>t\<close>, which is what the working tree holds.
\<close>

definition world_same_tree :: toy where
  "world_same_tree =
     \<lparr>manifest = Inr manifest_dep, on_path = [''git'', ''cipd'', ''vpython''], HEAD = ''B'',
      commits = [(''A'', ''t''), (''B'', ''t'')], remote = [], worktree = ''t'',
      untracked = True, remove_result = Some ENOENT, toplevel = ''/repo''\<rparr>"

text \<open>
  A checkout at commit \<open>C\<close> with another tree; \<open>A\<close> is not known locally and a fetch
  brings it.
\<close>

definition world_stale :: toy where
  "world_stale =
     \<lparr>manifest = Inr manifest_dep, on_path = [''git'', ''cipd'', ''vpython''], HEAD = ''C'',
      commits = [(''C'', ''u'')], remote = [(''A'', ''t'')], worktree = ''u'',
      untracked = True, remove_result = Some 13, toplevel = ''/repo''\<rparr>"

definition cfg_path :: string where
  "cfg_path = ''/repo/infra/config/recipes.cfg''"

definition start :: "'w \<Rightarrow> 'w state" where
  "start w = \<lparr>world = w, trace = []\<rparr>"

section \<open>Facts about the values of a manifest\<close>

lemma map_of_setdefault:
  "map_of (setdefault d k v) k' =
     (if k' = k then (case map_of d k of None \<Rightarrow> Some v | Some x \<Rightarrow> Some x) else map_of d k')"
  by (auto simp: setdefault_def map_add_def split: option.splits)

lemma dict_get_setdefault:
  "dict_get (setdefault d k v) k' dflt =
     (if k' = k then (case map_of d k of None \<Rightarrow> v | Some x \<Rightarrow> x) else dict_get d k' dflt)"
  by (auto simp: dict_get_def map_of_setdefault split: option.splits)






section \<open>Facts about the manifest parser\<close>











section \<open>Facts about running git\<close>

lemma git_check_call_run:
  assumes "subprocess env (GIT env # argv) kw (world s) = (r, w')"
  shows "git_check_call env argv kw s =
     (map_sum id (\<lambda>out. ()) (checked (GIT env # argv) r),
      \<lparr>world = w', trace = trace s @ [LogInfo ''Running %r'' (JList (map JStr (GIT env # argv))),
                                      Spawn (GIT env # argv) kw r]\<rparr>)"
  using assms by (simp add: git_check_call_def spawn_def emit_def Let_def)



lemma checked_failed:
  "rc \<noteq> 0 \<Longrightarrow> checked argv (Exited rc out) = Inl (CalledProcessError rc argv)"
  by (simp add: checked_def)

lemma checked_ok: "checked argv (Exited 0 out) = Inr out"
  by (simp add: checked_def)

lemma trace_git_check_call:
  "trace (snd (git_check_call env argv kw s)) =
     trace s @ [LogInfo ''Running %r'' (JList (map JStr (GIT env # argv))),
                Spawn (GIT env # argv) kw (fst (subprocess env (GIT env # argv) kw (world s)))]"
  by (cases "subprocess env (GIT env # argv) kw (world s)") (simp add: git_check_call_run)



section \<open>Facts about the managed checkout\<close>

lemma remove_index_lock_run:
  assumes "os_remove env (path_join env engine_path [''.git'', ''index.lock'']) (world s)
             = (removed, w')"
  shows "remove_index_lock env engine_path s =
     \<lparr>world = w',
      trace = trace s @ [Remove (path_join env engine_path [''.git'', ''index.lock'']) removed]
        @ (case removed of
             None \<Rightarrow> []
           | Some errno \<Rightarrow>
               if errno \<noteq> ENOENT
               then [LogWarn ''failed to remove %r, reset will fail: %s''
                       (path_join env engine_path [''.git'', ''index.lock'']) errno]
               else [])\<rparr>"
  using assms by (simp add: remove_index_lock_def emit_def Let_def split: option.splits)


lemma reset_to_revision_reset:
  assumes here: "here = \<lparr>cwd = Some engine_path, stdout_nul = False, stderr_nul = False\<rparr>"
    and lock: "index_lock = path_join env engine_path [''.git'', ''index.lock'']"
    and diff: "subprocess env [GIT env, ''diff'', ''--quiet'', r] here (world s)
                = (Exited rc out, w1)"
    and rc: "rc \<noteq> 0"
    and rm: "os_remove env index_lock w1 = (removed, w2)"
    and reset: "subprocess env [GIT env, ''reset'', ''-q'', ''--hard'', r] here w2 = (res, w3)"
  shows "reset_to_revision env (JStr r) engine_path s =
     (map_sum id (\<lambda>out. ()) (checked [GIT env, ''reset'', ''-q'', ''--hard'', r] res),
      \<lparr>world = w3,
       trace = trace s
         @ [LogInfo ''Running %r'' (JList (map JStr [GIT env, ''diff'', ''--quiet'', r])),
            Spawn [GIT env, ''diff'', ''--quiet'', r] here (Exited rc out),
            Remove index_lock removed]
         @ (case removed of
              None \<Rightarrow> []
            | Some errno \<Rightarrow>
                if errno \<noteq> ENOENT
                then [LogWarn ''failed to remove %r, reset will fail: %s'' index_lock errno]
                else [])
         @ [LogInfo ''Running %r'' (JList (map JStr [GIT env, ''reset'', ''-q'', ''--hard'', r])),
            Spawn [GIT env, ''reset'', ''-q'', ''--hard'', r] here res]\<rparr>)"
proof -
  let ?s4 = "\<lparr>world = w1, trace = trace s
         @ [LogInfo ''Running %r'' (JList (map JStr [GIT env, ''diff'', ''--quiet'', r])),
            Spawn [GIT env, ''diff'', ''--quiet'', r] here (Exited rc out)]\<rparr>"
  have d: "git_check_call env [''diff'', ''--quiet'', r] here s =
      (Inl (CalledProcessError rc [GIT env, ''diff'', ''--quiet'', r]), ?s4)"
    using git_check_call_run [of env "[''diff'', ''--quiet'', r]" here s, OF diff [simplified]] rc
    by (simp add: checked_failed)
  have rm': "os_remove env (path_join env engine_path [''.git'', ''index.lock'']) (world ?s4)
             = (removed, w2)"
    using rm lock by simp
  note l = remove_index_lock_run [OF rm']
  have reset': "subprocess env (GIT env # [''reset'', ''-q'', ''--hard'', r]) here
       (world (remove_index_lock env engine_path ?s4)) = (res, w3)"
    unfolding l using reset by simp
  show ?thesis
    unfolding reset_to_revision_def Let_def git_check_call_rev_def json.case here [symmetric]
      append.simps d prod.case sum.case exn.case git_check_call_run [OF reset']
    unfolding l lock by simp
qed

lemma reset_to_revision_same:
  assumes here: "here = \<lparr>cwd = Some engine_path, stdout_nul = False, stderr_nul = False\<rparr>"
    and diff: "subprocess env [GIT env, ''diff'', ''--quiet'', r] here (world s)
                = (Exited 0 out, w1)"
  shows "reset_to_revision env (JStr r) engine_path s =
     (Inr (),
      \<lparr>world = w1,
       trace = trace s
         @ [LogInfo ''Running %r'' (JList (map JStr [GIT env, ''diff'', ''--quiet'', r])),
            Spawn [GIT env, ''diff'', ''--quiet'', r] here (Exited 0 out)]\<rparr>)"
  using git_check_call_run [of env "[''diff'', ''--quiet'', r]" here s, OF diff [simplified]]
  by (simp add: reset_to_revision_def git_check_call_rev_def here checked_ok)


lemma ensure_cloned_resolved:
  assumes init: "subprocess env [GIT env, ''init'', engine_path]
                   \<lparr>cwd = None, stdout_nul = True, stderr_nul = False\<rparr> (world s)
                 = (Exited 0 out0, w1)"
    and verify: "subprocess env
                   [GIT env, ''rev-parse'', ''--verify'', percent_s env (revision dep) @ ''^{commit}'']
                   \<lparr>cwd = Some engine_path, stdout_nul = True, stderr_nul = True\<rparr> w1
                 = (Exited 0 out1, w2)"
  shows "ensure_cloned env u dep engine_path s =
     (Inr (),
      \<lparr>world = w2,
       trace = trace s @
         [LogInfo ''Running %r'' (JList (map JStr [GIT env, ''init'', engine_path])),
          Spawn [GIT env, ''init'', engine_path]
            \<lparr>cwd = None, stdout_nul = True, stderr_nul = False\<rparr> (Exited 0 out0),
          LogInfo ''Running %r'' (JList (map JStr
            [GIT env, ''rev-parse'', ''--verify'', percent_s env (revision dep) @ ''^{commit}''])),
          Spawn [GIT env, ''rev-parse'', ''--verify'', percent_s env (revision dep) @ ''^{commit}'']
            \<lparr>cwd = Some engine_path, stdout_nul = True, stderr_nul = True\<rparr>
            (Exited 0 out1)]\<rparr>)"
proof -
  let ?s1 = "\<lparr>world = w1,
       trace = trace s @
         [LogInfo ''Running %r'' (JList (map JStr [GIT env, ''init'', engine_path])),
          Spawn [GIT env, ''init'', engine_path]
            \<lparr>cwd = None, stdout_nul = True, stderr_nul = False\<rparr> (Exited 0 out0)]\<rparr>"
  have a: "git_check_call env [''init'', engine_path]
             \<lparr>cwd = None, stdout_nul = True, stderr_nul = False\<rparr> s = (Inr (), ?s1)"
    using git_check_call_run [of env "[''init'', engine_path]" _ s, OF init [simplified]]
    by (simp add: checked_ok)
  have v: "subprocess env
             (GIT env # [''rev-parse'', ''--verify'', percent_s env (revision dep) @ ''^{commit}''])
             \<lparr>cwd = Some engine_path, stdout_nul = True, stderr_nul = True\<rparr> (world ?s1)
           = (Exited 0 out1, w2)"
    using verify by simp
  show ?thesis
    unfolding ensure_cloned_def a prod.case sum.case git_check_call_run [OF v]
    by (simp add: checked_ok)
qed


lemma trace_managed_checkout:
  assumes "engine_path = path_join env recipes_path [''.recipe_deps'', ''recipe_engine'']"
    and "ensure_cloned env u dep engine_path s = (Inr (), s3)"
    and "reset_to_revision env (revision dep) engine_path s3 = (res, s5)"
  shows "prefix (trace s5) (trace (snd (managed_checkout env u dep recipes_path s)))
       \<and> (\<forall>e. res = Inl e \<longrightarrow> managed_checkout env u dep recipes_path s = (Inl e, s5))"
proof (cases res)
  case (Inl e)
  with assms show ?thesis
    by (simp add: managed_checkout_def Let_def)
next
  case (Inr x)
  let ?here = "\<lparr>cwd = Some engine_path, stdout_nul = False, stderr_nul = False\<rparr>"
  have "trace (snd (managed_checkout env u dep recipes_path s))
          = trace (snd (git_check_call env [''clean'', ''-qxf''] ?here s5))"
    using assms Inr
    by (cases "git_check_call env [''clean'', ''-qxf''] ?here s5")
       (simp add: managed_checkout_def Let_def split: sum.splits)
  with Inr show ?thesis
    by (simp add: trace_git_check_call)
qed


lemma checkout_managed:
  assumes "parse env repo_root recipes_cfg_path (world s) = Inr (Some dep, JStr rp, py3_only)"
    and "url dep = JStr u" and "\<not> prefix ''file://'' u" and "no_path engine_path"
  shows "checkout_engine env engine_path repo_root recipes_cfg_path s =
           (case managed_checkout env u dep rp s of
              (Inl e, s') \<Rightarrow> (Inl e, s')
            | (Inr p, s') \<Rightarrow> (Inr (p, py3_only), s'))"
  using assms by (simp add: checkout_engine_def)

section \<open>Facts about the entry point\<close>

lemma first_missing_Some:
  "first_missing env order w = Some b \<Longrightarrow> b \<in> set order \<and> \<not> is_on_path env b w"
  by (induction order) (auto split: if_splits)

lemma first_missing_None:
  "first_missing env order w = None \<longleftrightarrow> (\<forall>b\<in>set order. is_on_path env b w)"
  by (induction order) auto


section \<open>Runs in the small world\<close>

lemmas run_defs = managed_checkout_def ensure_cloned_def reset_to_revision_def
  remove_index_lock_def git_check_call_rev_def git_check_call_def spawn_def emit_def GIT_def
  BAT_def checked_def percent_s_def Let_def toy_env_def toy_git_def start_def ENOENT_def

lemma parse_manifest_dep:
  "parse toy_env ''/repo'' cfg_path world_same_tree =
     Inr (Some \<lparr>url = JStr ''https://host/engine.git'', revision = JStr ''A'',
                branch = ''refs/heads/main''\<rparr>, JStr ''/repo/'', JBool False)"
  by (simp add: parse_def parse_body_def parse_dep_def toy_env_def world_same_tree_def
      manifest_dep_def dict_get_def dict_item_def setdefault_def dict_set_def EngineDep_of_def
      replace_slash_def Let_def)


lemma managed_same_tree:
  "managed_checkout toy_env ''https://host/engine.git''
     \<lparr>url = JStr ''https://host/engine.git'', revision = JStr ''A'',
        branch = ''refs/heads/main''\<rparr> ''/repo/'' (start world_same_tree) =
   (Inr ''/repo/.recipe_deps/recipe_engine'',
    \<lparr>world = world_same_tree\<lparr>untracked := False\<rparr>,
     trace =
       [LogInfo ''Running %r''
          (JList (map JStr [''git'', ''init'', ''/repo/.recipe_deps/recipe_engine''])),
        Spawn [''git'', ''init'', ''/repo/.recipe_deps/recipe_engine'']
          \<lparr>cwd = None, stdout_nul = True, stderr_nul = False\<rparr> (Exited 0 []),
        LogInfo ''Running %r''
          (JList (map JStr [''git'', ''rev-parse'', ''--verify'', ''A^{commit}''])),
        Spawn [''git'', ''rev-parse'', ''--verify'', ''A^{commit}'']
          \<lparr>cwd = Some ''/repo/.recipe_deps/recipe_engine'', stdout_nul = True,
             stderr_nul = True\<rparr> (Exited 0 []),
        LogInfo ''Running %r'' (JList (map JStr [''git'', ''diff'', ''--quiet'', ''A''])),
        Spawn [''git'', ''diff'', ''--quiet'', ''A'']
          \<lparr>cwd = Some ''/repo/.recipe_deps/recipe_engine'', stdout_nul = False,
             stderr_nul = False\<rparr> (Exited 0 []),
        LogInfo ''Running %r'' (JList (map JStr [''git'', ''clean'', ''-qxf''])),
        Spawn [''git'', ''clean'', ''-qxf'']
          \<lparr>cwd = Some ''/repo/.recipe_deps/recipe_engine'', stdout_nul = False,
             stderr_nul = False\<rparr> (Exited 0 [])]\<rparr>)"
  by (simp add: run_defs world_same_tree_def)


lemma checkout_same_tree:
  "checkout_engine toy_env None ''/repo'' cfg_path (start world_same_tree) =
     (case managed_checkout toy_env ''https://host/engine.git''
             \<lparr>url = JStr ''https://host/engine.git'', revision = JStr ''A'',
                branch = ''refs/heads/main''\<rparr> ''/repo/'' (start world_same_tree) of
        (Inl e, s') \<Rightarrow> (Inl e, s')
      | (Inr p, s') \<Rightarrow> (Inr (p, JBool False), s'))"
proof -
  have p: "parse toy_env ''/repo'' cfg_path (world (start world_same_tree)) =
     Inr (Some \<lparr>url = JStr ''https://host/engine.git'', revision = JStr ''A'',
                branch = ''refs/heads/main''\<rparr>, JStr ''/repo/'', JBool False)"
    by (simp add: start_def parse_manifest_dep)
  show ?thesis
    by (rule checkout_managed [OF p]) (simp_all add: no_path_def)
qed


section \<open>What the parser returns\<close>



text \<open>
  C7.  For a manifest with \<^verbatim>\<open>api_version\<close> 2 whose repository identifier (\<^verbatim>\<open>repo_name\<close>,
  or \<^verbatim>\<open>project_id\<close> when \<^verbatim>\<open>repo_name\<close> is absent or empty) is \<^verbatim>\<open>recipe_engine\<close>, \<^verbatim>\<open>parse\<close>
  returns no dependency, the declared \<^verbatim>\<open>recipes_path\<close> (default empty) and the
  \<^verbatim>\<open>py3_only\<close> flag (default false), whatever \<^verbatim>\<open>deps\<close> is and whether it is there or not.
\<close>

theorem parse_self_hosting:
  assumes "json_load env path w = Inr (JObj pb)"
    and "map_of pb ''api_version'' = Some v" and "py_eq_int v 2"
    and "map_of pb ''repo_name'' = Some (JStr ''recipe_engine'')
         \<or> (\<not> truthy (dict_get pb ''repo_name'' JNull)
             \<and> map_of pb ''project_id'' = Some (JStr ''recipe_engine''))"
  shows "parse env repo_root path w =
         Inr (None, dict_get pb ''recipes_path'' (JStr []), dict_get pb ''py3_only'' (JBool False))"
  using assms by (auto simp: parse_def parse_body_def dict_item_def dict_get_def Let_def)

theorem parse_self_hosting_witness:
  "parse toy_env ''/repo'' cfg_path (world_same_tree\<lparr>manifest := Inr manifest_self\<rparr>) =
     Inr (None, JStr ''recipes'', JBool True)"
proof -
  let ?pb = "[(''api_version'', JInt 2), (''project_id'', JStr ''recipe_engine''),
           (''recipes_path'', JStr ''recipes''), (''py3_only'', JBool True),
           (''deps'', JObj [])]"
  have load: "json_load toy_env cfg_path (world_same_tree\<lparr>manifest := Inr manifest_self\<rparr>) =
      Inr (JObj ?pb)"
    by (simp add: toy_env_def manifest_self_def)
  have v: "map_of ?pb ''api_version'' = Some (JInt 2)"
    by simp
  have two: "py_eq_int (JInt 2) 2"
    by simp
  have ident: "map_of ?pb ''repo_name'' = Some (JStr ''recipe_engine'')
         \<or> (\<not> truthy (dict_get ?pb ''repo_name'' JNull)
             \<and> map_of ?pb ''project_id'' = Some (JStr ''recipe_engine''))"
    by (simp add: dict_get_def)
  have rp: "dict_get ?pb ''recipes_path'' (JStr []) = JStr ''recipes''"
    by (simp add: dict_get_def)
  have py: "dict_get ?pb ''py3_only'' (JBool False) = JBool True"
    by (simp add: dict_get_def)
  from parse_self_hosting [OF load v two ident, of "''/repo''"]
  show ?thesis
    unfolding rp py .
qed

section \<open>The checkout that is already in place\<close>

text \<open>
  C2.  When the engine is cloned and \<^verbatim>\<open>git diff --quiet\<close> against the pinned revision
  exits with status 0, the managed checkout runs \<^verbatim>\<open>diff\<close> and then \<^verbatim>\<open>git clean -qxf\<close>, and
  nothing else: no reset, and the index lock is not touched.  The outcome of \<^verbatim>\<open>clean\<close> is
  the outcome of the checkout.  When \<^verbatim>\<open>git init\<close> and \<^verbatim>\<open>git rev-parse --verify\<close> of the
  revision both exit with status 0, these two are all that runs before the \<^verbatim>\<open>diff\<close>: no
  fetch.  So a checkout in place costs four git commands, \<^verbatim>\<open>init\<close>, \<^verbatim>\<open>rev-parse\<close>,
  \<^verbatim>\<open>diff\<close> and \<^verbatim>\<open>clean\<close>, and two of them, \<^verbatim>\<open>init\<close> and \<^verbatim>\<open>clean\<close>, write.
\<close>

theorem fast_path_commands:
  assumes path: "engine_path = path_join env recipes_path [''.recipe_deps'', ''recipe_engine'']"
    and here: "here = \<lparr>cwd = Some engine_path, stdout_nul = False, stderr_nul = False\<rparr>"
    and rev: "revision dep = JStr r"
    and cloned: "ensure_cloned env u dep engine_path s = (Inr (), s3)"
    and diff: "subprocess env [GIT env, ''diff'', ''--quiet'', r] here (world s3)
                = (Exited 0 out, w3)"
    and clean: "subprocess env [GIT env, ''clean'', ''-qxf''] here w3 = (res, w4)"
  shows "managed_checkout env u dep recipes_path s =
           (map_sum id (\<lambda>out. engine_path) (checked [GIT env, ''clean'', ''-qxf''] res),
            \<lparr>world = w4,
             trace = trace s3 @
               [LogInfo ''Running %r'' (JList (map JStr [GIT env, ''diff'', ''--quiet'', r])),
                Spawn [GIT env, ''diff'', ''--quiet'', r] here (Exited 0 out),
                LogInfo ''Running %r'' (JList (map JStr [GIT env, ''clean'', ''-qxf''])),
                Spawn [GIT env, ''clean'', ''-qxf''] here res]\<rparr>)
       \<and> (\<forall>out0 w1 out1.
            subprocess env [GIT env, ''init'', engine_path]
              \<lparr>cwd = None, stdout_nul = True, stderr_nul = False\<rparr> (world s) = (Exited 0 out0, w1)
            \<and> subprocess env [GIT env, ''rev-parse'', ''--verify'', r @ ''^{commit}'']
                \<lparr>cwd = Some engine_path, stdout_nul = True, stderr_nul = True\<rparr> w1
                = (Exited 0 out1, world s3)
            \<longrightarrow> trace s3 = trace s @
               [LogInfo ''Running %r'' (JList (map JStr [GIT env, ''init'', engine_path])),
                Spawn [GIT env, ''init'', engine_path]
                  \<lparr>cwd = None, stdout_nul = True, stderr_nul = False\<rparr> (Exited 0 out0),
                LogInfo ''Running %r'' (JList (map JStr
                  [GIT env, ''rev-parse'', ''--verify'', r @ ''^{commit}''])),
                Spawn [GIT env, ''rev-parse'', ''--verify'', r @ ''^{commit}'']
                  \<lparr>cwd = Some engine_path, stdout_nul = True, stderr_nul = True\<rparr>
                  (Exited 0 out1)])"
proof -
  let ?s5 = "\<lparr>world = w3,
       trace = trace s3
         @ [LogInfo ''Running %r'' (JList (map JStr [GIT env, ''diff'', ''--quiet'', r])),
            Spawn [GIT env, ''diff'', ''--quiet'', r] here (Exited 0 out)]\<rparr>"
  have d: "reset_to_revision env (revision dep) engine_path s3 = (Inr (), ?s5)"
    unfolding rev by (rule reset_to_revision_same [OF here diff])
  have c: "subprocess env (GIT env # [''clean'', ''-qxf''])
             \<lparr>cwd = Some engine_path, stdout_nul = False, stderr_nul = False\<rparr> (world ?s5)
           = (res, w4)"
    using clean here by simp
  have m: "managed_checkout env u dep recipes_path s =
           (map_sum id (\<lambda>out. engine_path) (checked [GIT env, ''clean'', ''-qxf''] res),
            \<lparr>world = w4, trace = trace ?s5 @
               [LogInfo ''Running %r'' (JList (map JStr [GIT env, ''clean'', ''-qxf''])),
                Spawn [GIT env, ''clean'', ''-qxf''] here res]\<rparr>)"
    unfolding managed_checkout_def Let_def path [symmetric] cloned d prod.case sum.case
      git_check_call_run [OF c]
    by (cases "checked [GIT env, ''clean'', ''-qxf''] res") (simp_all add: here)
  have f: "trace s3 = trace s @
               [LogInfo ''Running %r'' (JList (map JStr [GIT env, ''init'', engine_path])),
                Spawn [GIT env, ''init'', engine_path]
                  \<lparr>cwd = None, stdout_nul = True, stderr_nul = False\<rparr> (Exited 0 out0),
                LogInfo ''Running %r'' (JList (map JStr
                  [GIT env, ''rev-parse'', ''--verify'', r @ ''^{commit}''])),
                Spawn [GIT env, ''rev-parse'', ''--verify'', r @ ''^{commit}'']
                  \<lparr>cwd = Some engine_path, stdout_nul = True, stderr_nul = True\<rparr>
                  (Exited 0 out1)]"
    if "subprocess env [GIT env, ''init'', engine_path]
              \<lparr>cwd = None, stdout_nul = True, stderr_nul = False\<rparr> (world s) = (Exited 0 out0, w1)"
      and "subprocess env [GIT env, ''rev-parse'', ''--verify'', r @ ''^{commit}'']
                \<lparr>cwd = Some engine_path, stdout_nul = True, stderr_nul = True\<rparr> w1
                = (Exited 0 out1, world s3)"
    for out0 w1 out1
  proof -
    have "percent_s env (revision dep) = r"
      by (simp add: rev percent_s_def)
    with ensure_cloned_resolved [of env engine_path s out0 w1 dep out1 "world s3" u] that
    have "ensure_cloned env u dep engine_path s =
      (Inr (), \<lparr>world = world s3, trace = trace s @
               [LogInfo ''Running %r'' (JList (map JStr [GIT env, ''init'', engine_path])),
                Spawn [GIT env, ''init'', engine_path]
                  \<lparr>cwd = None, stdout_nul = True, stderr_nul = False\<rparr> (Exited 0 out0),
                LogInfo ''Running %r'' (JList (map JStr
                  [GIT env, ''rev-parse'', ''--verify'', r @ ''^{commit}''])),
                Spawn [GIT env, ''rev-parse'', ''--verify'', r @ ''^{commit}'']
                  \<lparr>cwd = Some engine_path, stdout_nul = True, stderr_nul = True\<rparr>
                  (Exited 0 out1)]\<rparr>)"
      by simp
    then have "trace (snd (ensure_cloned env u dep engine_path s)) = trace s @
               [LogInfo ''Running %r'' (JList (map JStr [GIT env, ''init'', engine_path])),
                Spawn [GIT env, ''init'', engine_path]
                  \<lparr>cwd = None, stdout_nul = True, stderr_nul = False\<rparr> (Exited 0 out0),
                LogInfo ''Running %r'' (JList (map JStr
                  [GIT env, ''rev-parse'', ''--verify'', r @ ''^{commit}''])),
                Spawn [GIT env, ''rev-parse'', ''--verify'', r @ ''^{commit}'']
                  \<lparr>cwd = Some engine_path, stdout_nul = True, stderr_nul = True\<rparr>
                  (Exited 0 out1)]"
      by simp
    then show ?thesis
      unfolding cloned by simp
  qed
  from m f show ?thesis
    by simp
qed

theorem fast_path_commands_witness:
  "(let engine_path = ''/repo/.recipe_deps/recipe_engine'';
        here = \<lparr>cwd = Some engine_path, stdout_nul = False, stderr_nul = False\<rparr>;
        dep = \<lparr>url = JStr ''https://host/engine.git'', revision = JStr ''A'',
               branch = ''refs/heads/main''\<rparr>;
        s3 = snd (ensure_cloned toy_env ''https://host/engine.git'' dep engine_path
                   (start world_same_tree))
    in managed_checkout toy_env ''https://host/engine.git'' dep ''/repo/''
         (start world_same_tree) =
         (Inr engine_path,
          \<lparr>world = world_same_tree\<lparr>untracked := False\<rparr>,
           trace = trace s3 @
             [LogInfo ''Running %r'' (JList (map JStr [''git'', ''diff'', ''--quiet'', ''A''])),
              Spawn [''git'', ''diff'', ''--quiet'', ''A''] here (Exited 0 []),
              LogInfo ''Running %r'' (JList (map JStr [''git'', ''clean'', ''-qxf''])),
              Spawn [''git'', ''clean'', ''-qxf''] here (Exited 0 [])]\<rparr>))"
proof -
  let ?ep = "''/repo/.recipe_deps/recipe_engine''"
  let ?here = "\<lparr>cwd = Some ?ep, stdout_nul = False, stderr_nul = False\<rparr>"
  let ?u = "''https://host/engine.git''"
  let ?dep = "\<lparr>url = JStr ?u, revision = JStr ''A'', branch = ''refs/heads/main''\<rparr>"
  let ?w4 = "world_same_tree\<lparr>untracked := False\<rparr>"
  let ?s3 = "snd (ensure_cloned toy_env ?u ?dep ?ep (start world_same_tree))"
  have git: "GIT toy_env = ''git''"
    by (simp add: GIT_def BAT_def toy_env_def)
  have path: "?ep = path_join toy_env ''/repo/'' [''.recipe_deps'', ''recipe_engine'']"
    by (simp add: toy_env_def)
  have rev: "revision ?dep = JStr ''A''"
    by simp
  have run: "fst (ensure_cloned toy_env ?u ?dep ?ep (start world_same_tree)) = Inr ()
             \<and> world ?s3 = world_same_tree"
    by (simp add: ensure_cloned_def git_check_call_def spawn_def emit_def GIT_def BAT_def
        checked_def percent_s_def Let_def toy_env_def toy_git_def world_same_tree_def start_def)
  then have cloned: "ensure_cloned toy_env ?u ?dep ?ep (start world_same_tree) = (Inr (), ?s3)"
    by (simp add: prod_eq_iff)
  have diff: "subprocess toy_env [GIT toy_env, ''diff'', ''--quiet'', ''A''] ?here (world ?s3)
                = (Exited 0 [], world_same_tree)"
    unfolding conjunct2 [OF run] git
    by (simp add: toy_env_def toy_git_def world_same_tree_def)
  have clean: "subprocess toy_env [GIT toy_env, ''clean'', ''-qxf''] ?here world_same_tree
                 = (Exited 0 [], ?w4)"
    unfolding git by (simp add: toy_env_def toy_git_def world_same_tree_def)
  note claim = fast_path_commands [OF path refl rev cloned diff clean, THEN conjunct1]
  have "managed_checkout toy_env ?u ?dep ''/repo/'' (start world_same_tree) =
     (Inr ?ep, \<lparr>world = ?w4, trace = trace ?s3 @
             [LogInfo ''Running %r'' (JList (map JStr [''git'', ''diff'', ''--quiet'', ''A''])),
              Spawn [''git'', ''diff'', ''--quiet'', ''A''] ?here (Exited 0 []),
              LogInfo ''Running %r'' (JList (map JStr [''git'', ''clean'', ''-qxf''])),
              Spawn [''git'', ''clean'', ''-qxf''] ?here (Exited 0 [])]\<rparr>)"
    using claim unfolding git by (simp add: checked_def)
  then show ?thesis
    unfolding Let_def .
qed

theorem fast_path_runs_clean:
  "checkout_engine toy_env None ''/repo'' cfg_path (start world_same_tree) =
     (Inr (''/repo/.recipe_deps/recipe_engine'', JBool False),
      \<lparr>world = world_same_tree\<lparr>untracked := False\<rparr>,
       trace =
         [LogInfo ''Running %r''
            (JList (map JStr [''git'', ''init'', ''/repo/.recipe_deps/recipe_engine''])),
          Spawn [''git'', ''init'', ''/repo/.recipe_deps/recipe_engine'']
            \<lparr>cwd = None, stdout_nul = True, stderr_nul = False\<rparr> (Exited 0 []),
          LogInfo ''Running %r''
            (JList (map JStr [''git'', ''rev-parse'', ''--verify'', ''A^{commit}''])),
          Spawn [''git'', ''rev-parse'', ''--verify'', ''A^{commit}'']
            \<lparr>cwd = Some ''/repo/.recipe_deps/recipe_engine'', stdout_nul = True,
               stderr_nul = True\<rparr> (Exited 0 []),
          LogInfo ''Running %r'' (JList (map JStr [''git'', ''diff'', ''--quiet'', ''A''])),
          Spawn [''git'', ''diff'', ''--quiet'', ''A'']
            \<lparr>cwd = Some ''/repo/.recipe_deps/recipe_engine'', stdout_nul = False,
               stderr_nul = False\<rparr> (Exited 0 []),
          LogInfo ''Running %r'' (JList (map JStr [''git'', ''clean'', ''-qxf''])),
          Spawn [''git'', ''clean'', ''-qxf'']
            \<lparr>cwd = Some ''/repo/.recipe_deps/recipe_engine'', stdout_nul = False,
               stderr_nul = False\<rparr> (Exited 0 [])]\<rparr>)
   \<and> untracked world_same_tree = True
   \<and> untracked (world (snd (checkout_engine toy_env None ''/repo'' cfg_path
                               (start world_same_tree)))) = False"
  unfolding checkout_same_tree managed_same_tree by (simp add: world_same_tree_def)

section \<open>The index lock and the reset\<close>

text \<open>
  C8.  When \<^verbatim>\<open>git diff --quiet\<close> against the pinned revision exits with a status other
  than 0, the managed checkout goes on with exactly these steps: \<^verbatim>\<open>.git/index.lock\<close>
  under the engine path is removed; no event follows a removal that succeeded or failed
  with \<^verbatim>\<open>ENOENT\<close>, and one warning follows a removal that failed with another errno; then
  \<^verbatim>\<open>git reset -q --hard\<close> to the revision is run, whatever the removal did.  The outcome
  of the reset decides: its failure is the failure of the checkout.
\<close>

theorem index_lock_removed_before_reset:
  assumes path: "engine_path = path_join env recipes_path [''.recipe_deps'', ''recipe_engine'']"
    and here: "here = \<lparr>cwd = Some engine_path, stdout_nul = False, stderr_nul = False\<rparr>"
    and lock: "index_lock = path_join env engine_path [''.git'', ''index.lock'']"
    and rev: "revision dep = JStr r"
    and cloned: "ensure_cloned env u dep engine_path s = (Inr (), s3)"
    and diff: "subprocess env [GIT env, ''diff'', ''--quiet'', r] here (world s3)
                = (Exited rc out, w1)"
    and rc: "rc \<noteq> 0"
    and rm: "os_remove env index_lock w1 = (removed, w2)"
    and reset: "subprocess env [GIT env, ''reset'', ''-q'', ''--hard'', r] here w2 = (res, w3)"
    and steps: "steps =
           [LogInfo ''Running %r'' (JList (map JStr [GIT env, ''diff'', ''--quiet'', r])),
            Spawn [GIT env, ''diff'', ''--quiet'', r] here (Exited rc out),
            Remove index_lock removed]
         @ (case removed of
              None \<Rightarrow> []
            | Some errno \<Rightarrow>
                if errno \<noteq> ENOENT
                then [LogWarn ''failed to remove %r, reset will fail: %s'' index_lock errno]
                else [])
         @ [LogInfo ''Running %r'' (JList (map JStr [GIT env, ''reset'', ''-q'', ''--hard'', r])),
            Spawn [GIT env, ''reset'', ''-q'', ''--hard'', r] here res]"
  shows "reset_to_revision env (revision dep) engine_path s3 =
           (map_sum id (\<lambda>out. ()) (checked [GIT env, ''reset'', ''-q'', ''--hard'', r] res),
            \<lparr>world = w3, trace = trace s3 @ steps\<rparr>)
       \<and> prefix (trace s3 @ steps) (trace (snd (managed_checkout env u dep recipes_path s)))
       \<and> (\<forall>e. checked [GIT env, ''reset'', ''-q'', ''--hard'', r] res = Inl e \<longrightarrow>
            managed_checkout env u dep recipes_path s
              = (Inl e, \<lparr>world = w3, trace = trace s3 @ steps\<rparr>))"
proof -
  have r: "reset_to_revision env (revision dep) engine_path s3 =
           (map_sum id (\<lambda>out. ()) (checked [GIT env, ''reset'', ''-q'', ''--hard'', r] res),
            \<lparr>world = w3, trace = trace s3 @ steps\<rparr>)"
    unfolding rev steps by (rule reset_to_revision_reset [OF here lock diff rc rm reset])
  from trace_managed_checkout [OF path cloned r] r show ?thesis
    by auto
qed

theorem index_lock_removed_before_reset_witness:
  "(let engine_path = ''/repo/.recipe_deps/recipe_engine'';
        here = \<lparr>cwd = Some engine_path, stdout_nul = False, stderr_nul = False\<rparr>;
        dep = \<lparr>url = JStr ''https://host/engine.git'', revision = JStr ''A'',
               branch = ''refs/heads/main''\<rparr>;
        s3 = snd (ensure_cloned toy_env ''https://host/engine.git'' dep engine_path
                   (start world_stale))
    in reset_to_revision toy_env (revision dep) engine_path s3 =
         (Inr (),
          \<lparr>world = world_stale\<lparr>commits := [(''C'', ''u''), (''A'', ''t'')], HEAD := ''A'',
                     worktree := ''t''\<rparr>,
           trace = trace s3 @
             [LogInfo ''Running %r'' (JList (map JStr [''git'', ''diff'', ''--quiet'', ''A''])),
              Spawn [''git'', ''diff'', ''--quiet'', ''A''] here (Exited 1 []),
              Remove ''/repo/.recipe_deps/recipe_engine/.git/index.lock'' (Some 13),
              LogWarn ''failed to remove %r, reset will fail: %s''
                ''/repo/.recipe_deps/recipe_engine/.git/index.lock'' 13,
              LogInfo ''Running %r''
                (JList (map JStr [''git'', ''reset'', ''-q'', ''--hard'', ''A''])),
              Spawn [''git'', ''reset'', ''-q'', ''--hard'', ''A''] here (Exited 0 [])]\<rparr>))"
proof -
  let ?ep = "''/repo/.recipe_deps/recipe_engine''"
  let ?here = "\<lparr>cwd = Some ?ep, stdout_nul = False, stderr_nul = False\<rparr>"
  let ?lock = "''/repo/.recipe_deps/recipe_engine/.git/index.lock''"
  let ?u = "''https://host/engine.git''"
  let ?dep = "\<lparr>url = JStr ?u, revision = JStr ''A'', branch = ''refs/heads/main''\<rparr>"
  let ?w1 = "world_stale\<lparr>commits := [(''C'', ''u''), (''A'', ''t'')]\<rparr>"
  let ?w3 = "world_stale\<lparr>commits := [(''C'', ''u''), (''A'', ''t'')], HEAD := ''A'',
              worktree := ''t''\<rparr>"
  let ?s3 = "snd (ensure_cloned toy_env ?u ?dep ?ep (start world_stale))"
  have git: "GIT toy_env = ''git''"
    by (simp add: GIT_def BAT_def toy_env_def)
  have path: "?ep = path_join toy_env ''/repo/'' [''.recipe_deps'', ''recipe_engine'']"
    by (simp add: toy_env_def)
  have lock: "?lock = path_join toy_env ?ep [''.git'', ''index.lock'']"
    by (simp add: toy_env_def)
  have rev: "revision ?dep = JStr ''A''"
    by simp
  have run: "fst (ensure_cloned toy_env ?u ?dep ?ep (start world_stale)) = Inr ()
             \<and> world ?s3 = ?w1"
    by (simp add: ensure_cloned_def git_check_call_def spawn_def emit_def GIT_def BAT_def
        checked_def percent_s_def Let_def toy_env_def toy_git_def world_stale_def start_def)
  then have cloned: "ensure_cloned toy_env ?u ?dep ?ep (start world_stale) = (Inr (), ?s3)"
    by (simp add: prod_eq_iff)
  have diff: "subprocess toy_env [GIT toy_env, ''diff'', ''--quiet'', ''A''] ?here (world ?s3)
                = (Exited 1 [], ?w1)"
    unfolding conjunct2 [OF run] git
    by (simp add: toy_env_def toy_git_def world_stale_def)
  have rc: "(1::int) \<noteq> 0"
    by simp
  have rm: "os_remove toy_env ?lock ?w1 = (Some 13, ?w1)"
    by (simp add: toy_env_def world_stale_def)
  have reset: "subprocess toy_env [GIT toy_env, ''reset'', ''-q'', ''--hard'', ''A''] ?here ?w1
                 = (Exited 0 [], ?w3)"
    unfolding git by (simp add: toy_env_def toy_git_def world_stale_def)
  note claim = index_lock_removed_before_reset
      [OF path refl lock rev cloned diff rc rm reset refl, THEN conjunct1]
  have "reset_to_revision toy_env (revision ?dep) ?ep ?s3 =
     (Inr (), \<lparr>world = ?w3, trace = trace ?s3 @
       [LogInfo ''Running %r'' (JList (map JStr [''git'', ''diff'', ''--quiet'', ''A''])),
        Spawn [''git'', ''diff'', ''--quiet'', ''A''] ?here (Exited 1 []),
        Remove ?lock (Some 13),
        LogWarn ''failed to remove %r, reset will fail: %s'' ?lock 13,
        LogInfo ''Running %r'' (JList (map JStr [''git'', ''reset'', ''-q'', ''--hard'', ''A''])),
        Spawn [''git'', ''reset'', ''-q'', ''--hard'', ''A''] ?here (Exited 0 [])]\<rparr>)"
    using claim unfolding git by (simp add: checked_def ENOENT_def)
  then show ?thesis
    unfolding Let_def .
qed

section \<open>The engine override\<close>

text \<open>
  C4.  With an override that is not the empty string and a manifest that \<^verbatim>\<open>parse\<close> reads
  as a dependency on the engine, \<^verbatim>\<open>checkout_engine\<close> returns the override itself and the
  \<^verbatim>\<open>py3_only\<close> flag, and leaves the world and the trace as they were: nothing is run,
  whatever the URL of the dependency is.  With the manifest of the engine repository
  itself, the override is not looked at: the result is \<^verbatim>\<open>recipes_path\<close> under the
  repository root, again with nothing run.  The empty string as an override is the same
  as no override.
\<close>

theorem override_skips_checkout:
  assumes "parse env repo_root recipes_cfg_path (world s) = Inr (dep, recipes_path, py3_only)"
  shows "(dep \<noteq> None \<and> engine_path \<noteq> [] \<longrightarrow>
            checkout_engine env (Some engine_path) repo_root recipes_cfg_path s
              = (Inr (engine_path, py3_only), s))
       \<and> (\<forall>rp. dep = None \<and> recipes_path = JStr rp \<longrightarrow>
            checkout_engine env override repo_root recipes_cfg_path s
              = (Inr (path_join env repo_root [rp], py3_only), s))
       \<and> checkout_engine env (Some []) repo_root recipes_cfg_path s
           = checkout_engine env None repo_root recipes_cfg_path s"
proof -
  have "checkout_engine env (Some []) repo_root recipes_cfg_path s
           = checkout_engine env None repo_root recipes_cfg_path s"
  proof (cases dep)
    case None
    with assms show ?thesis
      by (simp add: checkout_engine_def)
  next
    case (Some d)
    show ?thesis
    proof (cases "url d")
      case (JStr u)
      with assms Some show ?thesis
        by (cases "prefix ''file://'' u") (simp_all add: checkout_engine_def no_path_def)
    qed (use assms Some in \<open>simp_all add: checkout_engine_def no_path_def\<close>)
  qed
  with assms show ?thesis
    by (cases dep) (simp_all add: checkout_engine_def no_path_def)
qed

theorem override_skips_checkout_witness:
  "checkout_engine toy_env (Some ''/engine'') ''/repo'' cfg_path (start world_same_tree)
     = (Inr (''/engine'', JBool False), start world_same_tree)"
proof -
  have p: "parse toy_env ''/repo'' cfg_path (world (start world_same_tree)) =
     Inr (Some \<lparr>url = JStr ''https://host/engine.git'', revision = JStr ''A'',
                branch = ''refs/heads/main''\<rparr>, JStr ''/repo/'', JBool False)"
    by (simp add: start_def parse_manifest_dep)
  from override_skips_checkout [OF p, of "''/engine''", THEN conjunct1]
  show ?thesis
    by simp
qed

theorem override_ignored_or_empty:
  "checkout_engine toy_env (Some ''/engine'') ''/repo'' cfg_path
     (start (world_same_tree\<lparr>manifest := Inr manifest_self\<rparr>))
     = (Inr (''/repo/recipes'', JBool True),
        start (world_same_tree\<lparr>manifest := Inr manifest_self\<rparr>))
   \<and> fst (checkout_engine toy_env (Some []) ''/repo'' cfg_path (start world_same_tree))
       = Inr (''/repo/.recipe_deps/recipe_engine'', JBool False)
   \<and> Spawn [''git'', ''clean'', ''-qxf'']
        \<lparr>cwd = Some ''/repo/.recipe_deps/recipe_engine'', stdout_nul = False,
           stderr_nul = False\<rparr> (Exited 0 [])
       \<in> set (trace (snd (checkout_engine toy_env (Some []) ''/repo'' cfg_path
                             (start world_same_tree))))"
proof -
  have p: "parse toy_env ''/repo'' cfg_path
             (world (start (world_same_tree\<lparr>manifest := Inr manifest_self\<rparr>)))
           = Inr (None, JStr ''recipes'', JBool True)"
    by (simp add: start_def parse_def parse_body_def toy_env_def manifest_self_def
        dict_get_def dict_item_def Let_def)
  have a: "checkout_engine toy_env (Some ''/engine'') ''/repo'' cfg_path
     (start (world_same_tree\<lparr>manifest := Inr manifest_self\<rparr>))
     = (Inr (''/repo/recipes'', JBool True),
        start (world_same_tree\<lparr>manifest := Inr manifest_self\<rparr>))"
    unfolding checkout_engine_def p by (simp add: toy_env_def)
  have p': "parse toy_env ''/repo'' cfg_path (world (start world_same_tree)) =
     Inr (Some \<lparr>url = JStr ''https://host/engine.git'', revision = JStr ''A'',
                branch = ''refs/heads/main''\<rparr>, JStr ''/repo/'', JBool False)"
    by (simp add: start_def parse_manifest_dep)
  have e: "checkout_engine toy_env (Some []) ''/repo'' cfg_path (start world_same_tree)
         = checkout_engine toy_env None ''/repo'' cfg_path (start world_same_tree)"
    unfolding checkout_engine_def p' by (simp add: no_path_def)
  show ?thesis
    unfolding e checkout_same_tree managed_same_tree using a by simp
qed

section \<open>The override on the command line\<close>






section \<open>What a successful checkout has run\<close>




section \<open>When the manifest is malformed\<close>




section \<open>The required binaries\<close>

text \<open>
  C5.  When a binary of \<^verbatim>\<open>REQUIRED_BINARIES\<close> (\<^verbatim>\<open>git\<close>, \<^verbatim>\<open>cipd\<close>) is not on the search
  path, \<^verbatim>\<open>main\<close> prints the message naming the first such binary in the order the set is
  iterated in, and returns 1; the world is as it was and the message is the only event, so
  nothing has run.  The runtime variant is looked up later: when the two binaries are
  there, the arguments are read, the manifest is located, \<^verbatim>\<open>checkout_engine\<close> has returned
  and the variant is then not on the search path, \<^verbatim>\<open>main\<close> prints the message naming the
  variant and returns 1, in the state the checkout has left.
\<close>

theorem missing_binary_exit:
  "(\<forall>b. first_missing env order (world s) = Some b \<longrightarrow>
        main env order argv file s = (Inr (Returned 1), emit (Print (not_found b)) s)
      \<and> b \<in> set order \<and> \<not> is_on_path env b (world s))
 \<and> ((\<exists>b\<in>set order. \<not> is_on_path env b (world s))
       \<longleftrightarrow> (\<exists>b. first_missing env order (world s) = Some b))
 \<and> (\<forall>s0 override package repo_root recipes_cfg_path args s1 engine_path py3_only s2 vpython.
        first_missing env order (world s) = None
      \<and> s0 = (if ''--verbose'' \<in> set argv then emit SetLevelInfo s else s)
      \<and> parse_args env (drop 1 argv) (world s0) = Inr (override, package)
      \<and> locate env file package (drop 1 argv) s0 = (Inr (repo_root, recipes_cfg_path, args), s1)
      \<and> checkout_engine env override repo_root recipes_cfg_path s1
          = (Inr (engine_path, py3_only), s2)
      \<and> vpython = vpython_name env py3_only (world s2)
      \<and> \<not> is_on_path env vpython (world s2)
      \<longrightarrow> main env order argv file s
            = (Inr (Returned 1), emit (Print (not_found vpython)) s2))"
proof (intro conjI allI impI)
  fix b
  assume b: "first_missing env order (world s) = Some b"
  then show "main env order argv file s = (Inr (Returned 1), emit (Print (not_found b)) s)"
    by (simp add: main_def main_body_def report_missing_def)
  from first_missing_Some [OF b] show "b \<in> set order" and "\<not> is_on_path env b (world s)"
    by simp_all
next
  show "(\<exists>b\<in>set order. \<not> is_on_path env b (world s))
       \<longleftrightarrow> (\<exists>b. first_missing env order (world s) = Some b)"
    using first_missing_None [of env order "world s"] by auto
next
  fix s0 override package repo_root recipes_cfg_path args s1 engine_path py3_only s2 vpython
  assume a: "first_missing env order (world s) = None
      \<and> s0 = (if ''--verbose'' \<in> set argv then emit SetLevelInfo s else s)
      \<and> parse_args env (drop 1 argv) (world s0) = Inr (override, package)
      \<and> locate env file package (drop 1 argv) s0 = (Inr (repo_root, recipes_cfg_path, args), s1)
      \<and> checkout_engine env override repo_root recipes_cfg_path s1
          = (Inr (engine_path, py3_only), s2)
      \<and> vpython = vpython_name env py3_only (world s2)
      \<and> \<not> is_on_path env vpython (world s2)"
  then have "run_engine env override repo_root recipes_cfg_path args s1
          = (Inl (RequiredBinaryNotFound (not_found vpython)), s2)"
    by (auto simp: run_engine_def Let_def)
  with a have "main_body env order argv file s
          = (Inl (RequiredBinaryNotFound (not_found vpython)), s2)"
    by (auto simp: main_body_def Let_def)
  then show "main env order argv file s
            = (Inr (Returned 1), emit (Print (not_found vpython)) s2)"
    by (simp add: main_def report_missing_def)
qed

theorem missing_binary_exit_witness:
  "main toy_env [''git'', ''cipd''] [''recipes.py'', ''run''] ''/repo/recipes.py''
     (start (world_same_tree\<lparr>on_path := [''cipd'', ''vpython'']\<rparr>))
   = (Inr (Returned 1),
      \<lparr>world = world_same_tree\<lparr>on_path := [''cipd'', ''vpython'']\<rparr>,
       trace = [Print ''Required binary is not found on PATH: git'']\<rparr>)"
proof -
  let ?w = "world_same_tree\<lparr>on_path := [''cipd'', ''vpython'']\<rparr>"
  have m: "first_missing toy_env [''git'', ''cipd''] (world (start ?w)) = Some ''git''"
    by (simp add: is_on_path_def toy_env_def start_def)
  from missing_binary_exit [of toy_env "[''git'', ''cipd'']" "start ?w"
      "[''recipes.py'', ''run'']" "''/repo/recipes.py''", THEN conjunct1, THEN spec, THEN mp,
      OF m, THEN conjunct1]
  show ?thesis
    by (simp add: emit_def start_def not_found_def)
qed

theorem runtime_checked_after_checkout:
  "main toy_env [''git'', ''cipd'']
     [''recipes.py'', ''--package'', ''/repo/infra/config/recipes.cfg'', ''run'']
     ''/repo/recipes.py'' (start (world_same_tree\<lparr>on_path := [''git'', ''cipd'']\<rparr>))
   = (Inr (Returned 1),
      \<lparr>world = world_same_tree\<lparr>on_path := [''git'', ''cipd''], untracked := False\<rparr>,
       trace =
         [LogInfo ''Running %r''
            (JList (map JStr [''git'', ''init'', ''/repo/.recipe_deps/recipe_engine''])),
          Spawn [''git'', ''init'', ''/repo/.recipe_deps/recipe_engine'']
            \<lparr>cwd = None, stdout_nul = True, stderr_nul = False\<rparr> (Exited 0 []),
          LogInfo ''Running %r''
            (JList (map JStr [''git'', ''rev-parse'', ''--verify'', ''A^{commit}''])),
          Spawn [''git'', ''rev-parse'', ''--verify'', ''A^{commit}'']
            \<lparr>cwd = Some ''/repo/.recipe_deps/recipe_engine'', stdout_nul = True,
               stderr_nul = True\<rparr> (Exited 0 []),
          LogInfo ''Running %r'' (JList (map JStr [''git'', ''diff'', ''--quiet'', ''A''])),
          Spawn [''git'', ''diff'', ''--quiet'', ''A'']
            \<lparr>cwd = Some ''/repo/.recipe_deps/recipe_engine'', stdout_nul = False,
               stderr_nul = False\<rparr> (Exited 0 []),
          LogInfo ''Running %r'' (JList (map JStr [''git'', ''clean'', ''-qxf''])),
          Spawn [''git'', ''clean'', ''-qxf'']
            \<lparr>cwd = Some ''/repo/.recipe_deps/recipe_engine'', stdout_nul = False,
               stderr_nul = False\<rparr> (Exited 0 []),
          Print ''Required binary is not found on PATH: vpython'']\<rparr>)"
  by (simp add: main_def main_body_def report_missing_def run_engine_def locate_def
      parse_args_def checkout_engine_def no_path_def vpython_name_def is_on_path_def
      not_found_def posix_dirname_def
      parse_def parse_body_def parse_dep_def manifest_dep_def dict_get_def dict_item_def
      setdefault_def dict_set_def EngineDep_of_def replace_slash_def
      run_defs world_same_tree_def)

section \<open>The manifest path and the forwarded arguments\<close>



end
